theory Spec2Isabelle
  imports Main "HOL-Library.Word"
begin

unbundle bit_operations_syntax

section \<open>Data model of \<^verbatim>\<open>Modules/_testcapi/ownedbuffer.c\<close>\<close>

text \<open>
  C types.  \<^verbatim>\<open>int\<close> is a 32-bit word, \<^verbatim>\<open>Py_ssize_t\<close> a 64-bit word read as two's
  complement (\<open>sint\<close>, \<open><s\<close>), \<^verbatim>\<open>char\<close> an 8-bit word.  The raw storage is a flat,
  byte-addressed memory; a \<^verbatim>\<open>char *\<close> is an address into it, so that the owner's
  \<^verbatim>\<open>buf\<close> and the \<^verbatim>\<open>buf\<close> of every view it exports name the same bytes.
\<close>

type_synonym c_int = "32 word"
type_synonym Py_ssize_t = "64 word"
type_synonym c_char = "8 word"
type_synonym addr = nat
type_synonym memory = "addr \<Rightarrow> c_char"

text \<open>The struct \<^verbatim>\<open>testOwnedBufObject\<close> (lines 7-19), without the object header.\<close>

record testOwnedBufObject =
  buf :: addr
  immutable_references :: Py_ssize_t
  exclusively_exported :: c_char

text \<open>
  The fields of \<^verbatim>\<open>Py_buffer\<close> that this file reads or determines: the storage, its
  length and the readonly flag.  The back reference \<^verbatim>\<open>obj\<close> to the owner is left out:
  the owner is passed to each function as a value.
\<close>

record Py_buffer =
  view_buf :: addr
  view_len :: Py_ssize_t
  view_readonly :: c_int

text \<open>The exceptions the file raises, each with its message.\<close>

datatype exc =
  BufferError string
| SystemError string
| IndexError string
| MemoryError

text \<open>The three messages of \<^verbatim>\<open>testownedbuf_getbuffer\<close>, under the names the specification
  gives them.\<close>

definition AlreadyExclusive :: exc where
  "AlreadyExclusive = BufferError ''Buffer is already exclusively exported.''"

definition ConflictingExclusive :: exc where
  "ConflictingExclusive =
     BufferError ''Buffer has immutable exports and cannot be exclusively exported.''"

definition InvalidMode :: exc where
  "InvalidMode =
     BufferError ''exactly one of PyBUF_EXCLUSIVE or PyBUF_IMMUTABLE must be specified.''"

section \<open>The owner: construction, export, release, deallocation\<close>

text \<open>
  \<^verbatim>\<open>testownedbuf_new\<close> (lines 21-42).  The two allocations are the environment's: the
  result of \<^verbatim>\<open>PyMem_Calloc(1000, 1)\<close> is the argument \<open>calloc_result\<close> (\<open>None\<close> is
  \<^verbatim>\<open>NULL\<close>, otherwise the address of 1000 zero bytes), the success of \<^verbatim>\<open>tp_alloc\<close> the
  argument \<open>tp_alloc_ok\<close>.
\<close>

definition PyMem_Calloc_1000 :: "memory \<Rightarrow> addr \<Rightarrow> memory" where
  "PyMem_Calloc_1000 mem p = (\<lambda>a. if p \<le> a \<and> a < p + 1000 then 0 else mem a)"

definition testownedbuf_new ::
  "memory \<Rightarrow> addr option \<Rightarrow> bool \<Rightarrow> memory \<times> (exc + testOwnedBufObject)" where
  "testownedbuf_new mem calloc_result tp_alloc_ok =
     (case calloc_result of
        None \<Rightarrow> (mem, Inl MemoryError)
      | Some p \<Rightarrow>
          if \<not> tp_alloc_ok then (PyMem_Calloc_1000 mem p, Inl MemoryError)
          else (PyMem_Calloc_1000 mem p,
                Inr \<lparr>buf = p, immutable_references = 0, exclusively_exported = 0\<rparr>))"

text \<open>
  Modelled from the spec: \<^verbatim>\<open>PyBUF_WRITABLE\<close> is a constant of the interpreter's buffer
  protocol, declared outside this file: the request for a writable buffer, bit 0 of the
  flags.
\<close>

definition PyBUF_WRITABLE :: c_int where
  "PyBUF_WRITABLE = 0x0001"

text \<open>
  Modelled from the spec: \<^verbatim>\<open>PyBuffer_FillInfo\<close> is interpreter code outside this file.
  The specification has a successful acquire return a handle "referencing this owner
  and the underlying storage": the view is filled with the storage, the length and the
  readonly flag the function is given.  The function returns a status, and
  \<^verbatim>\<open>testownedbuf_getbuffer\<close> returns that status as its own; the specification has no words
  for its failures, which are the interpreter's: it refuses a \<^verbatim>\<open>NULL\<close> view, and it refuses
  a request for a writable buffer (\<^verbatim>\<open>PyBUF_WRITABLE\<close>) when \<open>readonly\<close> is 1.  The pointer
  \<open>view\<close> is \<open>None\<close> for \<^verbatim>\<open>NULL\<close>, and otherwise holds the \<^verbatim>\<open>Py_buffer\<close> it points to, which
  the function overwrites.
\<close>

definition PyBuffer_FillInfo ::
  "Py_buffer option \<Rightarrow> addr \<Rightarrow> Py_ssize_t \<Rightarrow> c_int \<Rightarrow> c_int \<Rightarrow> exc + Py_buffer" where
  "PyBuffer_FillInfo view b len readonly flags =
     (if view = None
      then Inl (BufferError ''PyBuffer_FillInfo: view==NULL argument is obsolete'')
      else if flags AND PyBUF_WRITABLE = PyBUF_WRITABLE \<and> readonly = 1
        then Inl (BufferError ''Object is not writable.'')
      else Inr \<lparr>view_buf = b, view_len = len, view_readonly = readonly\<rparr>)"

text \<open>
  \<^verbatim>\<open>testownedbuf_getbuffer\<close> (lines 56-90).  The flag constants \<^verbatim>\<open>PyBUF_EXCLUSIVE\<close> and
  \<^verbatim>\<open>PyBUF_IMMUTABLE\<close> are declared in a header outside this file: they are parameters.
  The result is the object after the call, and either the exception set (the C function
  returns -1 and leaves \<^verbatim>\<open>view\<close> untouched) or the view filled in.  The first three exits
  return before anything is written.  The last one writes the object (lines 83-88) and
  then returns what \<^verbatim>\<open>PyBuffer_FillInfo\<close> returns (line 89), success or failure.
\<close>

definition testownedbuf_getbuffer ::
  "c_int \<Rightarrow> c_int \<Rightarrow> testOwnedBufObject \<Rightarrow> Py_buffer option \<Rightarrow> c_int \<Rightarrow>
     testOwnedBufObject \<times> (exc + Py_buffer)" where
  "testownedbuf_getbuffer PyBUF_EXCLUSIVE PyBUF_IMMUTABLE self view flags =
     (let exclusive_requested = (if flags AND PyBUF_EXCLUSIVE \<noteq> 0 then 1 else 0 :: c_char);
          immutable_requested = (if flags AND PyBUF_IMMUTABLE \<noteq> 0 then 1 else 0 :: c_char)
      in
      if exclusively_exported self \<noteq> 0 then (self, Inl AlreadyExclusive)
      else if flags AND PyBUF_EXCLUSIVE \<noteq> 0 \<and> 0 <s immutable_references self
        then (self, Inl ConflictingExclusive)
      else if \<not> (exclusive_requested XOR immutable_requested \<noteq> 0)
        then (self, Inl InvalidMode)
      else
        let readonly = (if exclusive_requested \<noteq> 0 then 0 else 1 :: c_int);
            self1 = (if exclusive_requested \<noteq> 0
                     then self\<lparr>exclusively_exported := 1\<rparr> else self);
            self2 = (if immutable_requested \<noteq> 0
                     then self1\<lparr>immutable_references := immutable_references self1 + 1\<rparr>
                     else self1)
        in (self2, PyBuffer_FillInfo view (buf self2) 1000 readonly flags))"

text \<open>
  \<^verbatim>\<open>testownedbuf_releasebufffer\<close> (lines 92-103).  \<open>None\<close> is the failed \<^verbatim>\<open>assert\<close>, which
  aborts the process.  The \<^verbatim>\<open>char\<close> is promoted to \<^verbatim>\<open>int\<close> before the \<^verbatim>\<open>^\<close>; the
  promotion keeps zero and non-zero apart, so the 8-bit XOR is non-zero exactly when the
  C expression is.
\<close>

definition testownedbuf_releasebufffer :: "testOwnedBufObject \<Rightarrow> testOwnedBufObject option" where
  "testownedbuf_releasebufffer self =
     (if \<not> (exclusively_exported self XOR
              (if 0 <s immutable_references self then 1 else 0) \<noteq> 0)
      then None
      else
        let self1 = (if exclusively_exported self \<noteq> 0
                     then self\<lparr>exclusively_exported := 0\<rparr> else self);
            self2 = (if 0 <s immutable_references self1
                     then self1\<lparr>immutable_references := immutable_references self1 - 1\<rparr>
                     else self1)
        in Some self2)"

text \<open>
  \<^verbatim>\<open>testownedbuf_dealloc\<close> (lines 44-54) returns nothing; what it does is the sequence of
  interpreter calls it makes, in order.
\<close>

datatype event =
  PyErr_SetString exc
| PyErr_Print
| PyMem_Free addr
| Tp_free

definition testownedbuf_dealloc :: "testOwnedBufObject \<Rightarrow> event list" where
  "testownedbuf_dealloc self =
     (if exclusively_exported self \<noteq> 0 \<or> 0 <s immutable_references self
      then [PyErr_SetString (SystemError ''deallocated buffer object has exported buffers.''),
            PyErr_Print]
      else [])
     @ [PyMem_Free (buf self), Tp_free]"

text \<open>
  A deallocation that was fatal would end the process at the diagnostic: nothing would
  run after \<^verbatim>\<open>PyErr_Print\<close>.  \<open>reports_diagnostic\<close> says that the diagnostic is printed
  at all.
\<close>

definition reports_diagnostic :: "event list \<Rightarrow> bool" where
  "reports_diagnostic evs = (PyErr_Print \<in> set evs)"

definition stops_at_diagnostic :: "event list \<Rightarrow> bool" where
  "stops_at_diagnostic evs = (evs \<noteq> [] \<and> last evs = PyErr_Print)"

section \<open>Sequences of calls on one owner\<close>

text \<open>
  The buffer protocol reaches the owner through its two slots only.  \<open>run\<close> lists the
  states the object goes through under a sequence of calls, the starting state first.
  A failed \<^verbatim>\<open>getbuffer\<close> returns to the caller and the sequence goes on from the object
  as the call left it; a failed
  \<^verbatim>\<open>assert\<close> in the release ends the process, and the list with it.
\<close>

datatype call = GetBuffer "Py_buffer option" c_int | ReleaseBuffer

fun run :: "c_int \<Rightarrow> c_int \<Rightarrow> testOwnedBufObject \<Rightarrow> call list \<Rightarrow> testOwnedBufObject list" where
  "run PyBUF_EXCLUSIVE PyBUF_IMMUTABLE self [] = [self]"
| "run PyBUF_EXCLUSIVE PyBUF_IMMUTABLE self (GetBuffer view flags # cs) =
     self # run PyBUF_EXCLUSIVE PyBUF_IMMUTABLE
              (fst (testownedbuf_getbuffer PyBUF_EXCLUSIVE PyBUF_IMMUTABLE self view flags)) cs"
| "run PyBUF_EXCLUSIVE PyBUF_IMMUTABLE self (ReleaseBuffer # cs) =
     self # (case testownedbuf_releasebufffer self of
               None \<Rightarrow> []
             | Some self' \<Rightarrow> run PyBUF_EXCLUSIVE PyBUF_IMMUTABLE self' cs)"

section \<open>The two view objects\<close>

text \<open>
  \<^verbatim>\<open>testSimpleImmutableViewObject\<close> and \<^verbatim>\<open>testSimpleMutableViewObject\<close> (lines 121-125 and
  195-199) hold one \<^verbatim>\<open>Py_buffer\<close> each.
\<close>

type_synonym testSimpleImmutableViewObject = Py_buffer
type_synonym testSimpleMutableViewObject = Py_buffer

text \<open>
  Modelled from the spec: \<^verbatim>\<open>PyBytes_FromStringAndSize\<close> is interpreter code outside this
  file.  Read access "returns a copy ... of the bytes in range [0, length)": the bytes
  object holds the \<open>len\<close> bytes of memory from \<open>p\<close> on.  A negative length gives no
  bytes object.
\<close>

definition PyBytes_FromStringAndSize :: "memory \<Rightarrow> addr \<Rightarrow> Py_ssize_t \<Rightarrow> c_char list option" where
  "PyBytes_FromStringAndSize mem p len =
     (if len <s 0 then None else Some (map (\<lambda>k. mem (p + k)) [0..<nat (sint len)]))"

text \<open>The two \<^verbatim>\<open>__bytes__\<close> methods (lines 128-132 and 201-205).\<close>

definition testSimpleImmutableViewObject_bytes ::
  "memory \<Rightarrow> testSimpleImmutableViewObject \<Rightarrow> c_char list option" where
  "testSimpleImmutableViewObject_bytes mem self =
     PyBytes_FromStringAndSize mem (view_buf self) (view_len self)"

definition testSimpleMutableViewObject_bytes ::
  "memory \<Rightarrow> testSimpleMutableViewObject \<Rightarrow> c_char list option" where
  "testSimpleMutableViewObject_bytes mem self =
     PyBytes_FromStringAndSize mem (view_buf self) (view_len self)"

text \<open>
  \<^verbatim>\<open>testSimpleMutableViewObject___setitem__\<close> (lines 207-224), after \<^verbatim>\<open>PyArg_ParseTuple\<close>
  has delivered \<open>index\<close> and \<open>val\<close>.  The store goes through the view's pointer.
\<close>

definition testSimpleMutableViewObject_setitem ::
  "memory \<Rightarrow> testSimpleMutableViewObject \<Rightarrow> Py_ssize_t \<Rightarrow> c_char \<Rightarrow> memory \<times> (exc + unit)" where
  "testSimpleMutableViewObject_setitem mem self index val =
     (if index <s 0 \<or> view_len self \<le>s index
      then (mem, Inl (IndexError ''index out of range''))
      else (mem(view_buf self + nat (sint index) := val), Inr ()))"

section \<open>Values for closed examples\<close>

text \<open>
  The theorems below hold for every value of the two flag constants.  The closed examples
  take two distinct bits for them, and for the caller's view a pointer to a
  \<^verbatim>\<open>Py_buffer\<close> not yet filled.
\<close>

definition example_EXCLUSIVE :: c_int where
  "example_EXCLUSIVE = 0x400"

definition example_IMMUTABLE :: c_int where
  "example_IMMUTABLE = 0x800"

definition example_view :: "Py_buffer option" where
  "example_view = Some \<lparr>view_buf = 0, view_len = 0, view_readonly = 0\<rparr>"

definition Idle :: "addr \<Rightarrow> testOwnedBufObject" where
  "Idle p = \<lparr>buf = p, immutable_references = 0, exclusively_exported = 0\<rparr>"

definition Shared :: "addr \<Rightarrow> Py_ssize_t \<Rightarrow> testOwnedBufObject" where
  "Shared p n = \<lparr>buf = p, immutable_references = n, exclusively_exported = 0\<rparr>"

definition Exclusive :: "addr \<Rightarrow> testOwnedBufObject" where
  "Exclusive p = \<lparr>buf = p, immutable_references = 0, exclusively_exported = 1\<rparr>"

section \<open>Arithmetic of the counter\<close>

lemma sint_succ: "sint (n :: Py_ssize_t) < 2 ^ 63 - 1 \<Longrightarrow> sint (n + 1) = sint n + 1"
  using sint_range_size [of n]
  by (simp add: sint_word_add signed_take_bit_int_eq_self word_size)

lemma sint_pred: "0 < sint (n :: Py_ssize_t) \<Longrightarrow> sint (n - 1) = sint n - 1"
  using sint_range_size [of n]
  by (simp add: sint_word_ariths signed_take_bit_int_eq_self word_size)

lemma new_is_Idle:
  "testownedbuf_new mem (Some p) True = (PyMem_Calloc_1000 mem p, Inr (Idle p))"
  by (simp add: testownedbuf_new_def Idle_def)

section \<open>Refusals of \<^verbatim>\<open>testownedbuf_getbuffer\<close>\<close>

text \<open>
  C2.  In every state whose \<^verbatim>\<open>exclusively_exported\<close> is non-zero, every call of
  \<^verbatim>\<open>testownedbuf_getbuffer\<close> fails with the AlreadyExclusive error and leaves the object
  as it was, whatever the flags are: one mode, both or none.
\<close>

theorem getbuffer_already_exclusive:
  "exclusively_exported self \<noteq> 0 \<Longrightarrow>
   testownedbuf_getbuffer PyBUF_EXCLUSIVE PyBUF_IMMUTABLE self view flags
     = (self, Inl AlreadyExclusive)"
  by (simp add: testownedbuf_getbuffer_def)

theorem getbuffer_already_exclusive_witness:
  "testownedbuf_getbuffer example_EXCLUSIVE example_IMMUTABLE (Exclusive 0) example_view example_IMMUTABLE
     = (Exclusive 0, Inl AlreadyExclusive)
   \<and> testownedbuf_getbuffer example_EXCLUSIVE example_IMMUTABLE (Exclusive 0) example_view example_EXCLUSIVE
     = (Exclusive 0, Inl AlreadyExclusive)"
  using getbuffer_already_exclusive [where self = "Exclusive 0"
          and PyBUF_EXCLUSIVE = example_EXCLUSIVE and PyBUF_IMMUTABLE = example_IMMUTABLE
          and view = example_view and flags = example_IMMUTABLE]
    getbuffer_already_exclusive [where self = "Exclusive 0"
          and PyBUF_EXCLUSIVE = example_EXCLUSIVE and PyBUF_IMMUTABLE = example_IMMUTABLE
          and view = example_view and flags = example_EXCLUSIVE]
  by (simp add: Exclusive_def)

text \<open>
  C3.  In every state with \<^verbatim>\<open>exclusively_exported\<close> zero and a positive
  \<^verbatim>\<open>immutable_references\<close>, a call whose flags contain \<^verbatim>\<open>PyBUF_EXCLUSIVE\<close> fails with the
  ConflictingExclusive error and leaves the object as it was.
\<close>

theorem getbuffer_conflicting_exclusive:
  "exclusively_exported self = 0 \<Longrightarrow> 0 <s immutable_references self \<Longrightarrow>
   flags AND PyBUF_EXCLUSIVE \<noteq> 0 \<Longrightarrow>
   testownedbuf_getbuffer PyBUF_EXCLUSIVE PyBUF_IMMUTABLE self view flags
     = (self, Inl ConflictingExclusive)"
  by (simp add: testownedbuf_getbuffer_def)

theorem getbuffer_conflicting_exclusive_witness:
  "testownedbuf_getbuffer example_EXCLUSIVE example_IMMUTABLE (Shared 0 2) example_view example_EXCLUSIVE
     = (Shared 0 2, Inl ConflictingExclusive)"
  using getbuffer_conflicting_exclusive [where self = "Shared 0 2"
          and PyBUF_EXCLUSIVE = example_EXCLUSIVE and PyBUF_IMMUTABLE = example_IMMUTABLE
          and view = example_view and flags = example_EXCLUSIVE]
  by (simp add: Shared_def example_EXCLUSIVE_def word_sless_alt)

text \<open>
  C4, as the specification states it, fails: with both flags set and immutable exports
  live, the test for a conflicting exclusive export comes first, and the error is
  ConflictingExclusive, not InvalidMode.
\<close>

theorem getbuffer_invalid_mode_counterexample:
  "testownedbuf_getbuffer example_EXCLUSIVE example_IMMUTABLE (Shared 0 1) example_view
       (example_EXCLUSIVE OR example_IMMUTABLE)
     = (Shared 0 1, Inl ConflictingExclusive)
   \<and> ConflictingExclusive \<noteq> InvalidMode
   \<and> (example_EXCLUSIVE OR example_IMMUTABLE) AND example_EXCLUSIVE \<noteq> 0
   \<and> (example_EXCLUSIVE OR example_IMMUTABLE) AND example_IMMUTABLE \<noteq> 0"
  by (simp add: testownedbuf_getbuffer_def Shared_def example_EXCLUSIVE_def
        example_IMMUTABLE_def ConflictingExclusive_def InvalidMode_def word_sless_alt)

text \<open>
  C4, amended.  In every state with \<^verbatim>\<open>exclusively_exported\<close> zero, a call whose flags set
  neither of the two bits fails with InvalidMode, whatever the counter is; a call whose
  flags set both fails with InvalidMode when \<^verbatim>\<open>immutable_references\<close> is not positive (the
  Idle state) and with ConflictingExclusive when it is positive (every Shared state).
  The object is unchanged in each case.
\<close>

theorem getbuffer_invalid_mode:
  "exclusively_exported self = 0 \<Longrightarrow>
   (flags AND PyBUF_EXCLUSIVE \<noteq> 0) = (flags AND PyBUF_IMMUTABLE \<noteq> 0) \<Longrightarrow>
   testownedbuf_getbuffer PyBUF_EXCLUSIVE PyBUF_IMMUTABLE self view flags
     = (self, Inl (if flags AND PyBUF_EXCLUSIVE \<noteq> 0 \<and> 0 <s immutable_references self
                   then ConflictingExclusive else InvalidMode))"
  by (simp add: testownedbuf_getbuffer_def)

theorem getbuffer_invalid_mode_witness:
  "testownedbuf_getbuffer example_EXCLUSIVE example_IMMUTABLE (Idle 0) example_view
       (example_EXCLUSIVE OR example_IMMUTABLE) = (Idle 0, Inl InvalidMode)
   \<and> testownedbuf_getbuffer example_EXCLUSIVE example_IMMUTABLE (Idle 0) example_view 0
       = (Idle 0, Inl InvalidMode)
   \<and> testownedbuf_getbuffer example_EXCLUSIVE example_IMMUTABLE (Shared 0 3) example_view 0
       = (Shared 0 3, Inl InvalidMode)
   \<and> testownedbuf_getbuffer example_EXCLUSIVE example_IMMUTABLE (Shared 0 3) example_view
       (example_EXCLUSIVE OR example_IMMUTABLE) = (Shared 0 3, Inl ConflictingExclusive)"
  using getbuffer_invalid_mode [where self = "Idle 0"
          and flags = "example_EXCLUSIVE OR example_IMMUTABLE" and view = example_view
          and PyBUF_EXCLUSIVE = example_EXCLUSIVE and PyBUF_IMMUTABLE = example_IMMUTABLE]
    getbuffer_invalid_mode [where self = "Idle 0" and flags = 0 and view = example_view
          and PyBUF_EXCLUSIVE = example_EXCLUSIVE and PyBUF_IMMUTABLE = example_IMMUTABLE]
    getbuffer_invalid_mode [where self = "Shared 0 3" and flags = 0 and view = example_view
          and PyBUF_EXCLUSIVE = example_EXCLUSIVE and PyBUF_IMMUTABLE = example_IMMUTABLE]
    getbuffer_invalid_mode [where self = "Shared 0 3"
          and flags = "example_EXCLUSIVE OR example_IMMUTABLE" and view = example_view
          and PyBUF_EXCLUSIVE = example_EXCLUSIVE and PyBUF_IMMUTABLE = example_IMMUTABLE]
  by (simp add: Idle_def Shared_def example_EXCLUSIVE_def example_IMMUTABLE_def word_sless_alt)

section \<open>A failed export and the state of the owner\<close>

text \<open>
  The three refusals of \<^verbatim>\<open>testownedbuf_getbuffer\<close> return before anything is written: a
  call that fails with one of the three errors leaves the object as it was.  Every other
  failure is a failure of \<^verbatim>\<open>PyBuffer_FillInfo\<close>, after the writes of lines 83 to 88, and
  leaves the object changed.
\<close>

lemma getbuffer_refusals_atomic:
  assumes "testownedbuf_getbuffer PyBUF_EXCLUSIVE PyBUF_IMMUTABLE self view flags
      = (self', Inl err)"
    and "err \<in> {AlreadyExclusive, ConflictingExclusive, InvalidMode}"
  shows "self' = self"
  using assms
  by (auto simp add: testownedbuf_getbuffer_def Let_def PyBuffer_FillInfo_def
        AlreadyExclusive_def ConflictingExclusive_def InvalidMode_def split: if_splits)

lemma getbuffer_fill_failure_changes_state:
  assumes "testownedbuf_getbuffer PyBUF_EXCLUSIVE PyBUF_IMMUTABLE self view flags
      = (self', Inl err)"
    and "err \<notin> {AlreadyExclusive, ConflictingExclusive, InvalidMode}"
  shows "self' \<noteq> self"
proof
  assume same: "self' = self"
  from assms have "exclusively_exported self' \<noteq> exclusively_exported self
      \<or> immutable_references self' \<noteq> immutable_references self"
    by (auto simp add: testownedbuf_getbuffer_def Let_def split: if_splits)
  with same show False by simp
qed

text \<open>
  C5.  Acquire is not atomic on failure.  On an Idle owner, a call whose flags are
  \<^verbatim>\<open>PyBUF_IMMUTABLE | PyBUF_WRITABLE\<close> passes the three tests, increments
  \<^verbatim>\<open>immutable_references\<close>, and then fails in \<^verbatim>\<open>PyBuffer_FillInfo\<close> with "Object is not
  writable.": the call returns the failure, no view is filled, and the owner is left in
  the state Shared(1).  A call with a \<^verbatim>\<open>NULL\<close> view and \<^verbatim>\<open>PyBUF_EXCLUSIVE\<close> fails in the same
  place and leaves \<^verbatim>\<open>exclusively_exported\<close> set.
\<close>

theorem getbuffer_failure_after_writes:
  "testownedbuf_getbuffer example_EXCLUSIVE example_IMMUTABLE (Idle 0) example_view
       (example_IMMUTABLE OR PyBUF_WRITABLE)
     = (Shared 0 1, Inl (BufferError ''Object is not writable.''))
   \<and> testownedbuf_getbuffer example_EXCLUSIVE example_IMMUTABLE (Idle 0) None
       example_EXCLUSIVE
     = (Exclusive 0, Inl (BufferError ''PyBuffer_FillInfo: view==NULL argument is obsolete''))
   \<and> immutable_references (Shared 0 1) = immutable_references (Idle 0) + 1
   \<and> exclusively_exported (Exclusive 0) \<noteq> exclusively_exported (Idle 0)"
  by (simp add: testownedbuf_getbuffer_def PyBuffer_FillInfo_def PyBUF_WRITABLE_def
        example_EXCLUSIVE_def example_IMMUTABLE_def example_view_def
        Idle_def Shared_def Exclusive_def word_sless_alt)

section \<open>What a granted export does\<close>

text \<open>
  C6.  For every state and all flags with which \<^verbatim>\<open>testownedbuf_getbuffer\<close> succeeds,
  exactly one of the two modes is requested.  When it is the exclusive one,
  \<^verbatim>\<open>exclusively_exported\<close> becomes 1 and \<^verbatim>\<open>immutable_references\<close> stays; when it is the
  immutable one, \<^verbatim>\<open>immutable_references\<close> is incremented by one (as a \<^verbatim>\<open>Py_ssize_t\<close>: the
  value read grows by one below the largest one) and \<^verbatim>\<open>exclusively_exported\<close> stays.
  The view's readonly flag is clear exactly when the mode is the exclusive one, and the
  view names the owner's storage, 1000 bytes long.
\<close>

theorem getbuffer_success_effects:
  "testownedbuf_getbuffer PyBUF_EXCLUSIVE PyBUF_IMMUTABLE self view flags = (self', Inr view') \<Longrightarrow>
   (flags AND PyBUF_EXCLUSIVE \<noteq> 0) \<noteq> (flags AND PyBUF_IMMUTABLE \<noteq> 0)
   \<and> (flags AND PyBUF_EXCLUSIVE \<noteq> 0 \<longrightarrow>
        exclusively_exported self' = 1
        \<and> immutable_references self' = immutable_references self)
   \<and> (flags AND PyBUF_IMMUTABLE \<noteq> 0 \<longrightarrow>
        immutable_references self' = immutable_references self + 1
        \<and> (sint (immutable_references self) < 2 ^ 63 - 1 \<longrightarrow>
             sint (immutable_references self') = sint (immutable_references self) + 1)
        \<and> exclusively_exported self' = exclusively_exported self)
   \<and> (view_readonly view' = 0 \<longleftrightarrow> flags AND PyBUF_EXCLUSIVE \<noteq> 0)
   \<and> (view_readonly view' = 1 \<longleftrightarrow> flags AND PyBUF_IMMUTABLE \<noteq> 0)
   \<and> buf self' = buf self \<and> view_buf view' = buf self \<and> view_len view' = 1000"
  by (auto simp add: testownedbuf_getbuffer_def Let_def PyBuffer_FillInfo_def sint_succ
        split: if_splits)

theorem getbuffer_success_effects_witness:
  "testownedbuf_getbuffer example_EXCLUSIVE example_IMMUTABLE (Idle 0) example_view example_EXCLUSIVE
     = (Exclusive 0, Inr \<lparr>view_buf = 0, view_len = 1000, view_readonly = 0\<rparr>)
   \<and> testownedbuf_getbuffer example_EXCLUSIVE example_IMMUTABLE (Shared 0 1) example_view example_IMMUTABLE
     = (Shared 0 2, Inr \<lparr>view_buf = 0, view_len = 1000, view_readonly = 1\<rparr>)
   \<and> exclusively_exported (Exclusive 0) = 1
   \<and> immutable_references (Exclusive 0) = immutable_references (Idle 0)
   \<and> immutable_references (Shared 0 2) = immutable_references (Shared 0 1) + 1
   \<and> exclusively_exported (Shared 0 2) = exclusively_exported (Shared 0 1)"
proof -
  have ex: "testownedbuf_getbuffer example_EXCLUSIVE example_IMMUTABLE (Idle 0) example_view
      example_EXCLUSIVE
      = (Exclusive 0, Inr \<lparr>view_buf = 0, view_len = 1000, view_readonly = 0\<rparr>)"
    by (simp add: testownedbuf_getbuffer_def Idle_def Exclusive_def example_EXCLUSIVE_def
          example_IMMUTABLE_def PyBuffer_FillInfo_def PyBUF_WRITABLE_def example_view_def
          word_sless_alt)
  have im: "testownedbuf_getbuffer example_EXCLUSIVE example_IMMUTABLE (Shared 0 1) example_view
      example_IMMUTABLE
      = (Shared 0 2, Inr \<lparr>view_buf = 0, view_len = 1000, view_readonly = 1\<rparr>)"
    by (simp add: testownedbuf_getbuffer_def Shared_def example_EXCLUSIVE_def
          example_IMMUTABLE_def PyBuffer_FillInfo_def PyBUF_WRITABLE_def example_view_def
          word_sless_alt)
  from getbuffer_success_effects [OF ex] getbuffer_success_effects [OF im] ex im
  show ?thesis
    by (simp add: example_EXCLUSIVE_def example_IMMUTABLE_def)
qed

section \<open>Invariants of sequences of calls\<close>

lemma run_not_Nil: "run PyBUF_EXCLUSIVE PyBUF_IMMUTABLE self cs \<noteq> []"
proof (cases cs)
  case Nil
  then show ?thesis by simp
next
  case (Cons c cs')
  then show ?thesis by (cases c) simp_all
qed

lemma getbuffer_keeps_exclusion:
  assumes "\<not> (0 <s immutable_references self \<and> exclusively_exported self \<noteq> 0)"
    and "self' = fst (testownedbuf_getbuffer PyBUF_EXCLUSIVE PyBUF_IMMUTABLE self view flags)"
  shows "\<not> (0 <s immutable_references self' \<and> exclusively_exported self' \<noteq> 0)"
  using assms by (auto simp add: testownedbuf_getbuffer_def Let_def split: if_splits)

lemma releasebufffer_clears_flag:
  assumes "testownedbuf_releasebufffer self = Some self'"
  shows "exclusively_exported self' = 0"
  using assms by (auto simp add: testownedbuf_releasebufffer_def Let_def split: if_splits)

lemma run_keeps_exclusion:
  "\<not> (0 <s immutable_references self \<and> exclusively_exported self \<noteq> 0) \<Longrightarrow>
   s \<in> set (run PyBUF_EXCLUSIVE PyBUF_IMMUTABLE self cs) \<Longrightarrow>
   \<not> (0 <s immutable_references s \<and> exclusively_exported s \<noteq> 0)"
proof (induction cs arbitrary: self)
  case Nil
  then show ?case by simp
next
  case (Cons c cs)
  show ?case
  proof (cases c)
    case (GetBuffer view flags)
    let ?next = "fst (testownedbuf_getbuffer PyBUF_EXCLUSIVE PyBUF_IMMUTABLE self view flags)"
    from Cons.prems(2) GetBuffer
    consider "s = self" | "s \<in> set (run PyBUF_EXCLUSIVE PyBUF_IMMUTABLE ?next cs)"
      by auto
    then show ?thesis
    proof cases
      case 1
      with Cons.prems(1) show ?thesis by simp
    next
      case 2
      have "\<not> (0 <s immutable_references ?next \<and> exclusively_exported ?next \<noteq> 0)"
        using Cons.prems(1) by (rule getbuffer_keeps_exclusion) simp
      from Cons.IH [OF this 2] show ?thesis .
    qed
  next
    case ReleaseBuffer
    show ?thesis
    proof (cases "testownedbuf_releasebufffer self")
      case None
      with Cons.prems ReleaseBuffer show ?thesis by simp
    next
      case (Some self')
      from Cons.prems(2) ReleaseBuffer Some
      consider "s = self" | "s \<in> set (run PyBUF_EXCLUSIVE PyBUF_IMMUTABLE self' cs)"
        by auto
      then show ?thesis
      proof cases
        case 1
        with Cons.prems(1) show ?thesis by simp
      next
        case 2
        have "\<not> (0 <s immutable_references self' \<and> exclusively_exported self' \<noteq> 0)"
          using releasebufffer_clears_flag [OF Some] by simp
        from Cons.IH [OF this 2] show ?thesis .
      qed
    qed
  qed
qed

text \<open>
  C1.  Mutual exclusion.  Take the object \<^verbatim>\<open>testownedbuf_new\<close> returns and any sequence of
  \<^verbatim>\<open>getbuffer\<close> and \<^verbatim>\<open>releasebuffer\<close> calls, with any flags.  In no state the object goes
  through is \<^verbatim>\<open>immutable_references\<close> positive while \<^verbatim>\<open>exclusively_exported\<close> is set.
\<close>

theorem mutual_exclusion:
  "testownedbuf_new mem calloc_result tp_alloc_ok = (mem', Inr self0) \<Longrightarrow>
   \<forall>s \<in> set (run PyBUF_EXCLUSIVE PyBUF_IMMUTABLE self0 cs).
      \<not> (0 <s immutable_references s \<and> exclusively_exported s \<noteq> 0)"
proof
  fix s
  assume new: "testownedbuf_new mem calloc_result tp_alloc_ok = (mem', Inr self0)"
    and s: "s \<in> set (run PyBUF_EXCLUSIVE PyBUF_IMMUTABLE self0 cs)"
  from new have "exclusively_exported self0 = 0"
    by (auto simp add: testownedbuf_new_def split: option.splits if_splits)
  then have "\<not> (0 <s immutable_references self0 \<and> exclusively_exported self0 \<noteq> 0)"
    by simp
  from run_keeps_exclusion [OF this s]
  show "\<not> (0 <s immutable_references s \<and> exclusively_exported s \<noteq> 0)" .
qed

theorem mutual_exclusion_witness:
  "run example_EXCLUSIVE example_IMMUTABLE (Idle 0)
       [GetBuffer example_view example_IMMUTABLE, GetBuffer example_view example_EXCLUSIVE, ReleaseBuffer,
        GetBuffer example_view example_EXCLUSIVE, GetBuffer example_view example_IMMUTABLE]
     = [Idle 0, Shared 0 1, Shared 0 1, Idle 0, Exclusive 0, Exclusive 0]
   \<and> list_all (\<lambda>s. \<not> (0 <s immutable_references s \<and> exclusively_exported s \<noteq> 0))
        (run example_EXCLUSIVE example_IMMUTABLE (Idle 0)
           [GetBuffer example_view example_IMMUTABLE, GetBuffer example_view example_EXCLUSIVE, ReleaseBuffer,
            GetBuffer example_view example_EXCLUSIVE, GetBuffer example_view example_IMMUTABLE])"
proof
  show "run example_EXCLUSIVE example_IMMUTABLE (Idle 0)
       [GetBuffer example_view example_IMMUTABLE, GetBuffer example_view example_EXCLUSIVE, ReleaseBuffer,
        GetBuffer example_view example_EXCLUSIVE, GetBuffer example_view example_IMMUTABLE]
     = [Idle 0, Shared 0 1, Shared 0 1, Idle 0, Exclusive 0, Exclusive 0]"
    by (simp add: testownedbuf_getbuffer_def testownedbuf_releasebufffer_def Idle_def
          Shared_def Exclusive_def example_EXCLUSIVE_def example_IMMUTABLE_def word_sless_alt)
next
  have new: "testownedbuf_new (\<lambda>a. 7) (Some 0) True
      = (PyMem_Calloc_1000 (\<lambda>a. 7) 0, Inr (Idle 0))"
    by (rule new_is_Idle)
  from mutual_exclusion [OF new]
  show "list_all (\<lambda>s. \<not> (0 <s immutable_references s \<and> exclusively_exported s \<noteq> 0))
        (run example_EXCLUSIVE example_IMMUTABLE (Idle 0)
           [GetBuffer example_view example_IMMUTABLE, GetBuffer example_view example_EXCLUSIVE, ReleaseBuffer,
            GetBuffer example_view example_EXCLUSIVE, GetBuffer example_view example_IMMUTABLE])"
    unfolding list_all_iff .
qed

section \<open>Release and the range of the counter\<close>

lemma getbuffer_counter_step:
  assumes "0 \<le> sint (immutable_references self)"
    and "sint (immutable_references self) < 2 ^ 63 - 1"
    and "self' = fst (testownedbuf_getbuffer PyBUF_EXCLUSIVE PyBUF_IMMUTABLE self view flags)"
  shows "0 \<le> sint (immutable_references self')
    \<and> sint (immutable_references self') \<le> sint (immutable_references self) + 1"
  using assms
  by (auto simp add: testownedbuf_getbuffer_def Let_def sint_succ split: if_splits)

lemma releasebufffer_counter_step:
  assumes "0 \<le> sint (immutable_references self)"
    and "testownedbuf_releasebufffer self = Some self'"
  shows "0 \<le> sint (immutable_references self')
    \<and> sint (immutable_references self') \<le> sint (immutable_references self)"
  using assms
  by (auto simp add: testownedbuf_releasebufffer_def Let_def sint_pred word_sless_alt
        split: if_splits)

lemma run_counter_range:
  "0 \<le> sint (immutable_references self) \<Longrightarrow>
   sint (immutable_references self) + int (length cs) < 2 ^ 63 \<Longrightarrow>
   s \<in> set (run PyBUF_EXCLUSIVE PyBUF_IMMUTABLE self cs) \<Longrightarrow>
   0 \<le> sint (immutable_references s)
   \<and> sint (immutable_references s) \<le> sint (immutable_references self) + int (length cs)"
proof (induction cs arbitrary: self)
  case Nil
  then show ?case by simp
next
  case (Cons c cs)
  show ?case
  proof (cases "s = self")
    case True
    with Cons.prems show ?thesis by simp
  next
    case False
    show ?thesis
    proof (cases c)
      case (GetBuffer view flags)
      let ?next = "fst (testownedbuf_getbuffer PyBUF_EXCLUSIVE PyBUF_IMMUTABLE self view flags)"
      from Cons.prems(3) GetBuffer False
      have mem: "s \<in> set (run PyBUF_EXCLUSIVE PyBUF_IMMUTABLE ?next cs)" by simp
      from Cons.prems(2) have "sint (immutable_references self) < 2 ^ 63 - 1" by simp
      with Cons.prems(1)
      have step: "0 \<le> sint (immutable_references ?next)
          \<and> sint (immutable_references ?next) \<le> sint (immutable_references self) + 1"
        by (rule getbuffer_counter_step) simp
      then have "sint (immutable_references ?next) + int (length cs) < 2 ^ 63"
        using Cons.prems(2) by simp
      from Cons.IH [OF _ this mem] step show ?thesis by simp
    next
      case ReleaseBuffer
      from Cons.prems(3) ReleaseBuffer False
      obtain self' where rel: "testownedbuf_releasebufffer self = Some self'"
        and mem: "s \<in> set (run PyBUF_EXCLUSIVE PyBUF_IMMUTABLE self' cs)"
        by (cases "testownedbuf_releasebufffer self") auto
      from releasebufffer_counter_step [OF Cons.prems(1) rel]
      have step: "0 \<le> sint (immutable_references self')
          \<and> sint (immutable_references self') \<le> sint (immutable_references self)" .
      then have "sint (immutable_references self') + int (length cs) < 2 ^ 63"
        using Cons.prems(2) by simp
      from Cons.IH [OF _ this mem] step show ?thesis by simp
    qed
  qed
qed

lemma getbuffer_immutable_granted:
  assumes "flags AND PyBUF_EXCLUSIVE = 0" and "flags AND PyBUF_IMMUTABLE \<noteq> 0"
    and "exclusively_exported self = 0"
  shows "fst (testownedbuf_getbuffer PyBUF_EXCLUSIVE PyBUF_IMMUTABLE self view flags)
    = self\<lparr>immutable_references := immutable_references self + 1\<rparr>"
  using assms by (simp add: testownedbuf_getbuffer_def)

lemma run_immutable_acquires:
  assumes "flags AND PyBUF_EXCLUSIVE = 0" and "flags AND PyBUF_IMMUTABLE \<noteq> 0"
  shows "exclusively_exported self = 0 \<Longrightarrow>
    last (run PyBUF_EXCLUSIVE PyBUF_IMMUTABLE self (replicate k (GetBuffer view flags)))
      = self\<lparr>immutable_references := immutable_references self + of_nat k\<rparr>"
proof (induction k arbitrary: self)
  case 0
  then show ?case by simp
next
  case (Suc k)
  let ?next = "self\<lparr>immutable_references := immutable_references self + 1\<rparr>"
  have "exclusively_exported ?next = 0" using Suc.prems by simp
  from Suc.IH [OF this] getbuffer_immutable_granted [OF assms Suc.prems]
  show ?case by (simp add: run_not_Nil add.assoc)
qed

text \<open>
  C7, as the specification states it, fails in its last part.  The increment in
  \<^verbatim>\<open>testownedbuf_getbuffer\<close> is unguarded: after \<open>2 ^ 63\<close> granted immutable exports of a
  new object the 64-bit counter has wrapped and reads as a negative number.
\<close>

theorem counter_nonneg_counterexample:
  "sint (immutable_references
     (last (run example_EXCLUSIVE example_IMMUTABLE (Idle 0)
              (replicate (2 ^ 63) (GetBuffer example_view example_IMMUTABLE))))) < 0"
proof -
  have "last (run example_EXCLUSIVE example_IMMUTABLE (Idle 0)
              (replicate (2 ^ 63) (GetBuffer example_view example_IMMUTABLE)))
      = (Idle 0)\<lparr>immutable_references := immutable_references (Idle 0) + of_nat (2 ^ 63)\<rparr>"
    by (rule run_immutable_acquires)
      (simp_all add: example_EXCLUSIVE_def example_IMMUTABLE_def Idle_def)
  then show ?thesis by (simp add: Idle_def)
qed

text \<open>
  C7, amended.  A release in a state with the exclusive export live
  (\<^verbatim>\<open>exclusively_exported\<close> set, counter not positive) clears \<^verbatim>\<open>exclusively_exported\<close> and
  leaves the counter.  A release in a state with immutable exports live (flag clear,
  counter positive) decrements \<^verbatim>\<open>immutable_references\<close> by one.  A release in a state
  where neither is live fails the \<^verbatim>\<open>assert\<close>.  No release makes a non-negative counter
  negative or larger.  Under every sequence of fewer than \<open>2 ^ 63\<close> calls on a new
  object the counter stays non-negative, and at most the number of calls made.
\<close>

theorem release_effects_and_counter_range:
  "(exclusively_exported self \<noteq> 0 \<and> \<not> 0 <s immutable_references self \<longrightarrow>
      testownedbuf_releasebufffer self = Some (self\<lparr>exclusively_exported := 0\<rparr>))
   \<and> (exclusively_exported self = 0 \<and> 0 <s immutable_references self \<longrightarrow>
      testownedbuf_releasebufffer self
        = Some (self\<lparr>immutable_references := immutable_references self - 1\<rparr>)
      \<and> sint (immutable_references self - 1) = sint (immutable_references self) - 1)
   \<and> (exclusively_exported self = 0 \<and> \<not> 0 <s immutable_references self \<longrightarrow>
      testownedbuf_releasebufffer self = None)
   \<and> (\<forall>self'. 0 \<le> sint (immutable_references self)
         \<and> testownedbuf_releasebufffer self = Some self' \<longrightarrow>
         0 \<le> sint (immutable_references self')
         \<and> sint (immutable_references self') \<le> sint (immutable_references self))
   \<and> (testownedbuf_new mem calloc_result tp_alloc_ok = (mem', Inr self0)
       \<and> length cs < 2 ^ 63 \<longrightarrow>
       (\<forall>s \<in> set (run PyBUF_EXCLUSIVE PyBUF_IMMUTABLE self0 cs).
          0 \<le> sint (immutable_references s)
          \<and> sint (immutable_references s) \<le> int (length cs)))"
proof (intro conjI impI allI ballI)
  assume "exclusively_exported self \<noteq> 0 \<and> \<not> 0 <s immutable_references self"
  then show "testownedbuf_releasebufffer self = Some (self\<lparr>exclusively_exported := 0\<rparr>)"
    by (simp add: testownedbuf_releasebufffer_def)
next
  assume a: "exclusively_exported self = 0 \<and> 0 <s immutable_references self"
  then show "testownedbuf_releasebufffer self
      = Some (self\<lparr>immutable_references := immutable_references self - 1\<rparr>)"
    by (simp add: testownedbuf_releasebufffer_def)
  from a show "sint (immutable_references self - 1) = sint (immutable_references self) - 1"
    by (simp add: sint_pred word_sless_alt)
next
  assume "exclusively_exported self = 0 \<and> \<not> 0 <s immutable_references self"
  then show "testownedbuf_releasebufffer self = None"
    by (simp add: testownedbuf_releasebufffer_def)
next
  fix self'
  assume a: "0 \<le> sint (immutable_references self)
    \<and> testownedbuf_releasebufffer self = Some self'"
  then have "0 \<le> sint (immutable_references self')
      \<and> sint (immutable_references self') \<le> sint (immutable_references self)"
    by (intro releasebufffer_counter_step) simp_all
  then show "0 \<le> sint (immutable_references self')"
    and "sint (immutable_references self') \<le> sint (immutable_references self)"
    by simp_all
next
  fix s
  assume a: "testownedbuf_new mem calloc_result tp_alloc_ok = (mem', Inr self0)
      \<and> length cs < 2 ^ 63"
    and s: "s \<in> set (run PyBUF_EXCLUSIVE PyBUF_IMMUTABLE self0 cs)"
  from a have zero: "immutable_references self0 = 0"
    by (auto simp add: testownedbuf_new_def split: option.splits if_splits)
  from a have "length cs < 2 ^ 63" by simp
  then have "int (length cs) < 2 ^ 63"
    by (metis of_nat_less_iff of_nat_numeral of_nat_power)
  with zero have "0 \<le> sint (immutable_references self0)"
    and "sint (immutable_references self0) + int (length cs) < 2 ^ 63"
    by simp_all
  from run_counter_range [OF this s] zero
  have "0 \<le> sint (immutable_references s)
      \<and> sint (immutable_references s) \<le> int (length cs)"
    by simp
  then show "0 \<le> sint (immutable_references s)"
    and "sint (immutable_references s) \<le> int (length cs)"
    by simp_all
qed

theorem release_effects_and_counter_range_witness:
  "testownedbuf_releasebufffer (Exclusive 0) = Some (Idle 0)
   \<and> testownedbuf_releasebufffer (Shared 0 2) = Some (Shared 0 1)
   \<and> testownedbuf_releasebufffer (Shared 0 1) = Some (Idle 0)
   \<and> testownedbuf_releasebufffer (Idle 0) = None
   \<and> list_all (\<lambda>s. 0 \<le> sint (immutable_references s) \<and> sint (immutable_references s) \<le> 5)
        (run example_EXCLUSIVE example_IMMUTABLE (Idle 0)
           [GetBuffer example_view example_IMMUTABLE, GetBuffer example_view example_IMMUTABLE,
            ReleaseBuffer, ReleaseBuffer, ReleaseBuffer])"
proof -
  have new: "testownedbuf_new (\<lambda>a. 7) (Some 0) True
      = (PyMem_Calloc_1000 (\<lambda>a. 7) 0, Inr (Idle 0))"
    by (rule new_is_Idle)
  have len: "length [GetBuffer example_view example_IMMUTABLE, GetBuffer example_view example_IMMUTABLE,
      ReleaseBuffer, ReleaseBuffer, ReleaseBuffer] < 2 ^ 63"
    by simp
  note eff = release_effects_and_counter_range
  from eff [where self = "Exclusive 0"]
  have a: "testownedbuf_releasebufffer (Exclusive 0) = Some (Idle 0)"
    by (simp add: Exclusive_def Idle_def word_sless_alt)
  from eff [where self = "Shared 0 2"]
  have b: "testownedbuf_releasebufffer (Shared 0 2) = Some (Shared 0 1)"
    by (simp add: Shared_def word_sless_alt)
  from eff [where self = "Shared 0 1"]
  have c: "testownedbuf_releasebufffer (Shared 0 1) = Some (Idle 0)"
    by (simp add: Shared_def Idle_def word_sless_alt)
  from eff [where self = "Idle 0"]
  have d: "testownedbuf_releasebufffer (Idle 0) = None"
    by (simp add: Idle_def word_sless_alt)
  from eff [where self0 = "Idle 0" and mem = "\<lambda>a. 7" and calloc_result = "Some 0"
      and tp_alloc_ok = True and mem' = "PyMem_Calloc_1000 (\<lambda>a. 7) 0"
      and cs = "[GetBuffer example_view example_IMMUTABLE, GetBuffer example_view example_IMMUTABLE,
                 ReleaseBuffer, ReleaseBuffer, ReleaseBuffer]"
      and PyBUF_EXCLUSIVE = example_EXCLUSIVE and PyBUF_IMMUTABLE = example_IMMUTABLE]
    new len
  have e: "\<forall>s \<in> set (run example_EXCLUSIVE example_IMMUTABLE (Idle 0)
                     [GetBuffer example_view example_IMMUTABLE, GetBuffer example_view example_IMMUTABLE,
                      ReleaseBuffer, ReleaseBuffer, ReleaseBuffer]).
         0 \<le> sint (immutable_references s) \<and> sint (immutable_references s) \<le> 5"
    by simp
  from a b c d e show ?thesis unfolding list_all_iff by simp
qed

section \<open>Deallocation\<close>

text \<open>
  C8, as the specification states it, fails in its second part.  Deallocating an owner
  with one immutable export live reports the diagnostic and then goes on: the storage and
  the object are freed and the function returns.  Nothing ends at the diagnostic.
\<close>

theorem dealloc_fatal_counterexample:
  "testownedbuf_dealloc (Shared 0 1)
     = [PyErr_SetString (SystemError ''deallocated buffer object has exported buffers.''),
        PyErr_Print, PyMem_Free 0, Tp_free]
   \<and> \<not> stops_at_diagnostic (testownedbuf_dealloc (Shared 0 1))"
  by (simp add: testownedbuf_dealloc_def Shared_def stops_at_diagnostic_def word_sless_alt)

text \<open>
  C8, amended.  \<^verbatim>\<open>testownedbuf_dealloc\<close> reports no diagnostic exactly when
  \<^verbatim>\<open>exclusively_exported\<close> is clear and \<^verbatim>\<open>immutable_references\<close> is not positive; for a
  non-negative counter that is exactly the Idle state.  In every other state it sets a
  \<^verbatim>\<open>SystemError\<close> and prints it at once with \<^verbatim>\<open>PyErr_Print\<close>, so that no error is left for a
  caller to handle, and then frees the storage and the object as in the Idle state: the
  violation is reported, and it is not fatal.
\<close>

theorem dealloc_diagnostic_iff_not_idle:
  "(reports_diagnostic (testownedbuf_dealloc self) \<longleftrightarrow>
      exclusively_exported self \<noteq> 0 \<or> 0 <s immutable_references self)
   \<and> (0 \<le> sint (immutable_references self) \<longrightarrow>
        (\<not> reports_diagnostic (testownedbuf_dealloc self) \<longleftrightarrow>
           immutable_references self = 0 \<and> exclusively_exported self = 0))
   \<and> (reports_diagnostic (testownedbuf_dealloc self) \<longrightarrow>
        testownedbuf_dealloc self
          = [PyErr_SetString (SystemError ''deallocated buffer object has exported buffers.''),
             PyErr_Print, PyMem_Free (buf self), Tp_free])
   \<and> (\<not> reports_diagnostic (testownedbuf_dealloc self) \<longrightarrow>
        testownedbuf_dealloc self = [PyMem_Free (buf self), Tp_free])
   \<and> \<not> stops_at_diagnostic (testownedbuf_dealloc self)"
proof -
  have pos: "0 \<le> sint (immutable_references self) \<Longrightarrow>
      (0 <s immutable_references self) = (immutable_references self \<noteq> 0)"
    by (auto simp add: word_sless_alt order_less_le signed_eq_0_iff)
  show ?thesis
    by (auto simp add: testownedbuf_dealloc_def reports_diagnostic_def
          stops_at_diagnostic_def pos)
qed

theorem dealloc_diagnostic_iff_not_idle_witness:
  "\<not> reports_diagnostic (testownedbuf_dealloc (Idle 0))
   \<and> testownedbuf_dealloc (Idle 0) = [PyMem_Free 0, Tp_free]
   \<and> reports_diagnostic (testownedbuf_dealloc (Exclusive 0))
   \<and> testownedbuf_dealloc (Exclusive 0)
       = [PyErr_SetString (SystemError ''deallocated buffer object has exported buffers.''),
          PyErr_Print, PyMem_Free 0, Tp_free]
   \<and> reports_diagnostic (testownedbuf_dealloc (Shared 0 2))"
  using dealloc_diagnostic_iff_not_idle [of "Idle 0"]
    dealloc_diagnostic_iff_not_idle [of "Exclusive 0"]
    dealloc_diagnostic_iff_not_idle [of "Shared 0 2"]
  by (simp add: Idle_def Exclusive_def Shared_def word_sless_alt)

text \<open>
  C10.  In every state, with exports live or not, \<^verbatim>\<open>testownedbuf_dealloc\<close> ends by freeing
  the storage (\<^verbatim>\<open>PyMem_Free(self->buf)\<close>) and then the object (\<^verbatim>\<open>tp_free\<close>).  The test for
  live exports only puts the diagnostic in front of these two calls; it neither ends the
  function nor skips them.
\<close>

theorem dealloc_always_frees:
  "testownedbuf_dealloc self
     = (if reports_diagnostic (testownedbuf_dealloc self)
        then [PyErr_SetString (SystemError ''deallocated buffer object has exported buffers.''),
              PyErr_Print]
        else [])
       @ [PyMem_Free (buf self), Tp_free]
   \<and> PyMem_Free (buf self) \<in> set (testownedbuf_dealloc self)
   \<and> Tp_free \<in> set (testownedbuf_dealloc self)
   \<and> last (testownedbuf_dealloc self) = Tp_free
   \<and> last (butlast (testownedbuf_dealloc self)) = PyMem_Free (buf self)"
  by (simp add: testownedbuf_dealloc_def reports_diagnostic_def)

theorem dealloc_always_frees_witness:
  "reports_diagnostic (testownedbuf_dealloc (Shared 5 3))
   \<and> PyMem_Free 5 \<in> set (testownedbuf_dealloc (Shared 5 3))
   \<and> Tp_free \<in> set (testownedbuf_dealloc (Shared 5 3))
   \<and> last (testownedbuf_dealloc (Shared 5 3)) = Tp_free
   \<and> reports_diagnostic (testownedbuf_dealloc (Exclusive 5))
   \<and> PyMem_Free 5 \<in> set (testownedbuf_dealloc (Exclusive 5))
   \<and> Tp_free \<in> set (testownedbuf_dealloc (Exclusive 5))"
proof -
  have "reports_diagnostic (testownedbuf_dealloc (Shared 5 3))"
    and "reports_diagnostic (testownedbuf_dealloc (Exclusive 5))"
    by (simp_all add: testownedbuf_dealloc_def reports_diagnostic_def Shared_def
          Exclusive_def word_sless_alt)
  with dealloc_always_frees [of "Shared 5 3"] dealloc_always_frees [of "Exclusive 5"]
  show ?thesis by (simp add: Shared_def Exclusive_def)
qed

section \<open>Writing through an exclusive view, reading through an immutable one\<close>

text \<open>
  C9.  Let the two flag constants be distinct non-zero bits, \<^verbatim>\<open>PyBUF_IMMUTABLE\<close> not
  containing the \<^verbatim>\<open>PyBUF_WRITABLE\<close> bit, the owner Idle, the caller's views not \<^verbatim>\<open>NULL\<close>,
  the index \<open>i\<close> in \<open>[0, 1000)\<close> and \<open>v\<close> any byte.  Then: \<^verbatim>\<open>getbuffer\<close> with \<^verbatim>\<open>PyBUF_EXCLUSIVE\<close>
  grants a writable view of the owner's storage; \<^verbatim>\<open>__setitem__\<close> on it stores \<open>v\<close> at
  \<open>i\<close>, and its own \<^verbatim>\<open>__bytes__\<close> shows it; the release returns the owner to the Idle
  state; \<^verbatim>\<open>getbuffer\<close> with
  \<^verbatim>\<open>PyBUF_IMMUTABLE\<close> grants a readonly view; and \<^verbatim>\<open>__bytes__\<close> on that view returns 1000
  bytes with \<open>v\<close> at index \<open>i\<close>.  The instance after the theorem writes 0x42 at index 5.
\<close>

theorem exclusive_write_then_immutable_read:
  assumes "PyBUF_EXCLUSIVE \<noteq> 0" and "PyBUF_IMMUTABLE \<noteq> 0"
    and "PyBUF_EXCLUSIVE AND PyBUF_IMMUTABLE = 0"
    and "immutable_references self = 0" and "exclusively_exported self = 0"
    and "0 \<le>s i" and "i <s 1000"
    and "PyBUF_IMMUTABLE AND PyBUF_WRITABLE \<noteq> PyBUF_WRITABLE"
  shows
    "let h = \<lparr>view_buf = buf self, view_len = 1000, view_readonly = 0\<rparr>;
         mem1 = mem(buf self + nat (sint i) := v);
         h' = \<lparr>view_buf = buf self, view_len = 1000, view_readonly = 1\<rparr>
     in testownedbuf_getbuffer PyBUF_EXCLUSIVE PyBUF_IMMUTABLE self (Some w) PyBUF_EXCLUSIVE
          = (self\<lparr>exclusively_exported := 1\<rparr>, Inr h)
        \<and> testSimpleMutableViewObject_setitem mem h i v = (mem1, Inr ())
        \<and> (\<exists>bs. testSimpleMutableViewObject_bytes mem1 h = Some bs
              \<and> length bs = 1000 \<and> bs ! nat (sint i) = v)
        \<and> testownedbuf_releasebufffer (self\<lparr>exclusively_exported := 1\<rparr>) = Some self
        \<and> testownedbuf_getbuffer PyBUF_EXCLUSIVE PyBUF_IMMUTABLE self (Some w) PyBUF_IMMUTABLE
          = (self\<lparr>immutable_references := 1\<rparr>, Inr h')
        \<and> (\<exists>bs. testSimpleImmutableViewObject_bytes mem1 h' = Some bs
              \<and> length bs = 1000 \<and> bs ! nat (sint i) = v)"
proof -
  from assms(3) have disj: "PyBUF_IMMUTABLE AND PyBUF_EXCLUSIVE = 0"
    by (simp add: and.commute)
  from assms(6,7) have i: "0 \<le> sint i" "sint i < 1000"
    by (simp_all add: word_sle_eq word_sless_alt)
  have acquire: "testownedbuf_getbuffer PyBUF_EXCLUSIVE PyBUF_IMMUTABLE self (Some w) PyBUF_EXCLUSIVE
      = (self\<lparr>exclusively_exported := 1\<rparr>,
         Inr \<lparr>view_buf = buf self, view_len = 1000, view_readonly = 0\<rparr>)"
    using assms(1,3,4,5)
    by (simp add: testownedbuf_getbuffer_def PyBuffer_FillInfo_def word_sless_alt)
  have store: "testSimpleMutableViewObject_setitem mem
      \<lparr>view_buf = buf self, view_len = 1000, view_readonly = 0\<rparr> i v
      = (mem(buf self + nat (sint i) := v), Inr ())"
    using i by (simp add: testSimpleMutableViewObject_setitem_def word_sle_eq word_sless_alt)
  have load0: "\<exists>bs. testSimpleMutableViewObject_bytes (mem(buf self + nat (sint i) := v))
        \<lparr>view_buf = buf self, view_len = 1000, view_readonly = 0\<rparr> = Some bs
      \<and> length bs = 1000 \<and> bs ! nat (sint i) = v"
    using i
    by (simp add: testSimpleMutableViewObject_bytes_def PyBytes_FromStringAndSize_def
          word_sless_alt)
  have release: "testownedbuf_releasebufffer (self\<lparr>exclusively_exported := 1\<rparr>) = Some self"
    using assms(4,5) by (simp add: testownedbuf_releasebufffer_def word_sless_alt)
  have acquire': "testownedbuf_getbuffer PyBUF_EXCLUSIVE PyBUF_IMMUTABLE self (Some w) PyBUF_IMMUTABLE
      = (self\<lparr>immutable_references := 1\<rparr>,
         Inr \<lparr>view_buf = buf self, view_len = 1000, view_readonly = 1\<rparr>)"
    using assms(2,4,5,8) disj
    by (simp add: testownedbuf_getbuffer_def PyBuffer_FillInfo_def word_sless_alt)
  have load: "\<exists>bs. testSimpleImmutableViewObject_bytes (mem(buf self + nat (sint i) := v))
        \<lparr>view_buf = buf self, view_len = 1000, view_readonly = 1\<rparr> = Some bs
      \<and> length bs = 1000 \<and> bs ! nat (sint i) = v"
    using i
    by (simp add: testSimpleImmutableViewObject_bytes_def PyBytes_FromStringAndSize_def
          word_sless_alt)
  from acquire store load0 release acquire' load show ?thesis
    by (simp only: Let_def)
qed

theorem exclusive_write_then_immutable_read_witness:
  "testownedbuf_getbuffer example_EXCLUSIVE example_IMMUTABLE (Idle 0) example_view example_EXCLUSIVE
     = (Exclusive 0, Inr \<lparr>view_buf = 0, view_len = 1000, view_readonly = 0\<rparr>)
   \<and> testSimpleMutableViewObject_setitem (PyMem_Calloc_1000 (\<lambda>a. 7) 0)
        \<lparr>view_buf = 0, view_len = 1000, view_readonly = 0\<rparr> 5 0x42
     = ((PyMem_Calloc_1000 (\<lambda>a. 7) 0)(5 := 0x42), Inr ())
   \<and> (\<exists>bs. testSimpleMutableViewObject_bytes ((PyMem_Calloc_1000 (\<lambda>a. 7) 0)(5 := 0x42))
               \<lparr>view_buf = 0, view_len = 1000, view_readonly = 0\<rparr> = Some bs
            \<and> length bs = 1000 \<and> bs ! 5 = 0x42)
   \<and> testownedbuf_releasebufffer (Exclusive 0) = Some (Idle 0)
   \<and> testownedbuf_getbuffer example_EXCLUSIVE example_IMMUTABLE (Idle 0) example_view example_IMMUTABLE
     = (Shared 0 1, Inr \<lparr>view_buf = 0, view_len = 1000, view_readonly = 1\<rparr>)
   \<and> (\<exists>bs. testSimpleImmutableViewObject_bytes ((PyMem_Calloc_1000 (\<lambda>a. 7) 0)(5 := 0x42))
               \<lparr>view_buf = 0, view_len = 1000, view_readonly = 1\<rparr> = Some bs
            \<and> length bs = 1000 \<and> bs ! 5 = 0x42)"
proof -
  have bits: "example_EXCLUSIVE \<noteq> 0" "example_IMMUTABLE \<noteq> 0"
    "example_EXCLUSIVE AND example_IMMUTABLE = 0"
    by (simp_all add: example_EXCLUSIVE_def example_IMMUTABLE_def)
  have idle: "immutable_references (Idle 0) = 0" "exclusively_exported (Idle 0) = 0"
    by (simp_all add: Idle_def)
  have index: "(0 :: Py_ssize_t) \<le>s 5" "(5 :: Py_ssize_t) <s 1000"
    by (simp_all add: word_sle_eq word_sless_alt)
  have readable: "example_IMMUTABLE AND PyBUF_WRITABLE \<noteq> PyBUF_WRITABLE"
    by (simp add: example_IMMUTABLE_def PyBUF_WRITABLE_def)
  from exclusive_write_then_immutable_read
         [OF bits idle index readable, where mem = "PyMem_Calloc_1000 (\<lambda>a. 7) 0"
            and v = "0x42" and w = "\<lparr>view_buf = 0, view_len = 0, view_readonly = 0\<rparr>"]
  show ?thesis
    by (simp add: Let_def Idle_def Exclusive_def Shared_def example_view_def)
qed

end
